theory Spec2Isabelle
  imports Main
begin

section \<open>Data model of tools/train\_net.py\<close>

text \<open>
  A raised Python exception. \<open>AttributeError\<close> is the one the interpreter raises
  itself inside \<open>main\<close> (a method looked up on \<open>None\<close>); every other exception
  comes out of a collaborator and is carried by its text.
\<close>

datatype exn = AttributeError | Raised string

text \<open>The Python values a checkpoint dictionary holds, as far as \<open>main\<close> looks at them.\<close>

datatype pyval = PyNone | PyInt int | PyStr string | PyObj nat

text \<open>
  The configuration node, with the fields \<open>main\<close> reads:
  \<open>cfg.MODEL.WEIGHTS\<close>, \<open>cfg.MODEL.DEVICE\<close>, \<open>cfg.MODEL.DDP_FP16_GRAD_COMPRESS\<close>,
  \<open>cfg.MODEL.DDP_FIND_UNUSED_PARAMETERS\<close> and \<open>cfg.OUTPUT_DIR\<close>.
  It is a value: the fields are read as they are when \<open>main\<close> is entered.
\<close>

record cfg =
  MODEL_WEIGHTS :: string
  MODEL_DEVICE :: string
  MODEL_DDP_FP16_GRAD_COMPRESS :: bool
  MODEL_DDP_FIND_UNUSED_PARAMETERS :: bool
  OUTPUT_DIR :: string

text \<open>A loaded checkpoint is a Python dict; \<open>checkpoint.get(k, None)\<close> is \<open>map_of\<close>.\<close>

type_synonym checkpoint = "(string \<times> pyval) list"

text \<open>
  A materialised configuration of a trained sub-model: a path owned by an output
  directory, for one model name.
\<close>

datatype artifact = Config_path string string

text \<open>
  The dictionary \<open>main\<close> returns, with its three keys. \<open>'mt\<close> is the metrics report
  of the runner, which \<open>main\<close> never looks into.
\<close>

record 'mt RunResult =
  accuracy :: 'mt
  model_configs :: "(string \<times> artifact) list"
  metrics :: 'mt

text \<open>
  What a run does besides returning: the calls it makes on its collaborators, in order,
  each with its arguments and its outcome (\<open>Inl\<close> an exception raised by the callee,
  \<open>Inr\<close> the value returned). \<open>'m\<close> is a model object, \<open>'k\<close> a checkpointer object,
  \<open>'tc\<close> the configuration of a trained sub-model. The \<open>train_iter\<close> argument of
  \<open>do_test\<close> is \<open>None\<close> when the keyword is not passed and \<open>Some v\<close> when it is
  passed as \<open>v\<close>.
\<close>

datatype ('m, 'k, 'mt, 'tc) event =
    Ev_setup_after_launch cfg string "exn + unit"
  | Ev_build_model cfg "exn + 'm"
  | Ev_logger_info 'm
  | Ev_build_checkpointer cfg 'm string "exn + 'k"
  | Ev_has_checkpoint 'k "exn + bool"
  | Ev_resume_or_load 'k string bool "exn + checkpoint"
  | Ev_load 'k string "exn + checkpoint"
  | Ev_model_eval 'm "exn + unit"
  | Ev_do_test cfg 'm "pyval option" "exn + 'mt"
  | Ev_print_metrics_table 'mt "exn + unit"
  | Ev_get_local_rank "exn + int"
  | Ev_create_ddp_model 'm bool "int list option" bool bool "exn + 'm"
  | Ev_do_train cfg 'm bool "exn + (string \<times> 'tc) list"
  | Ev_dump_config string string 'tc
  | Ev_post_mortem exn

subsection \<open>Running a collaborator: state, trace and exceptions\<close>

text \<open>
  A piece of the program takes the state of the world \<open>'w\<close> (the models, the
  checkpoint directory, the process group: everything the collaborators mutate) and
  gives an outcome, the calls made, and the world after.
\<close>

type_synonym ('w, 'ev, 'a) prog = "'w \<Rightarrow> (exn + 'a) \<times> 'ev list \<times> 'w"

definition return :: "'a \<Rightarrow> ('w, 'ev, 'a) prog" where
  "return a = (\<lambda>w. (Inr a, [], w))"

definition raise :: "exn \<Rightarrow> ('w, 'ev, 'a) prog" where
  "raise e = (\<lambda>w. (Inl e, [], w))"

text \<open>Sequencing: an exception of the first part skips the rest, as in Python.\<close>

definition bind :: "('w, 'ev, 'a) prog \<Rightarrow> ('a \<Rightarrow> ('w, 'ev, 'b) prog) \<Rightarrow> ('w, 'ev, 'b) prog" where
  "bind m f = (\<lambda>w. case m w of
       (Inl e, tr, w1) \<Rightarrow> (Inl e, tr, w1)
     | (Inr a, tr, w1) \<Rightarrow> (case f a w1 of (r, tr2, w2) \<Rightarrow> (r, tr @ tr2, w2)))"

text \<open>One call of a collaborator: it is recorded with its outcome.\<close>

definition call :: "((exn + 'a) \<Rightarrow> 'ev) \<Rightarrow> ('w \<Rightarrow> (exn + 'a) \<times> 'w) \<Rightarrow> ('w, 'ev, 'a) prog" where
  "call ev f = (\<lambda>w. case f w of (r, w1) \<Rightarrow> (r, [ev r], w1))"

definition emit :: "'ev \<Rightarrow> ('w, 'ev, unit) prog" where
  "emit ev = (\<lambda>w. (Inr (), [ev], w))"

subsection \<open>The collaborators\<close>

text \<open>
  The injected runner: \<open>build_model(cfg)\<close>, \<open>build_checkpointer(cfg, model, save_dir)\<close>,
  \<open>do_train(cfg, model, resume)\<close> and \<open>do_test(cfg, model, train_iter)\<close>. Each may
  change the world and may raise.
\<close>

record ('w, 'm, 'k, 'mt, 'tc) runner =
  build_model :: "cfg \<Rightarrow> 'w \<Rightarrow> (exn + 'm) \<times> 'w"
  build_checkpointer :: "cfg \<Rightarrow> 'm \<Rightarrow> string \<Rightarrow> 'w \<Rightarrow> (exn + 'k) \<times> 'w"
  do_train :: "cfg \<Rightarrow> 'm \<Rightarrow> bool \<Rightarrow> 'w \<Rightarrow> (exn + (string \<times> 'tc) list) \<times> 'w"
  do_test :: "cfg \<Rightarrow> 'm \<Rightarrow> pyval option \<Rightarrow> 'w \<Rightarrow> (exn + 'mt) \<times> 'w"

text \<open>
  The parsed command line, as far as \<open>run_with_cmdline_args\<close> reads it:
  \<open>args.num_processes\<close>, \<open>args.num_machines\<close>, \<open>args.machine_rank\<close>,
  \<open>args.dist_url\<close>, \<open>args.dist_backend\<close>, \<open>args.eval_only\<close>, \<open>args.resume\<close>.
\<close>

record cli_args =
  args_num_processes :: int
  args_num_machines :: int
  args_machine_rank :: int
  args_dist_url :: string
  args_dist_backend :: string
  args_eval_only :: bool
  args_resume :: bool

text \<open>The positional arguments \<open>launch\<close> hands to the entry point: \<open>main_func(*args)\<close>.\<close>

type_synonym ('w, 'm, 'k, 'mt, 'tc) entry_args =
  "cfg \<times> string \<times> ('w, 'm, 'k, 'mt, 'tc) runner option \<times> bool \<times> bool"

text \<open>
  What the module imports and the methods of the objects it is handed:
  \<open>setup_after_launch\<close>, \<open>print_metrics_table\<close>, \<open>create_ddp_model\<close> (with its
  arguments \<open>model\<close>, \<open>fp16_compression\<close>, \<open>device_ids\<close>, \<open>broadcast_buffers\<close>,
  \<open>find_unused_parameters\<close>), \<open>comm.get_local_rank\<close>, \<open>model.eval\<close>, the
  checkpointer's \<open>has_checkpoint\<close>, \<open>resume_or_load\<close> and \<open>load\<close>, and, for
  \<open>run_with_cmdline_args\<close>, \<open>prepare_for_launch\<close> and \<open>launch\<close> (with its arguments
  \<open>main_func\<close>, \<open>num_processes_per_machine\<close>, \<open>num_machines\<close>, \<open>machine_rank\<close>,
  \<open>dist_url\<close>, \<open>backend\<close>, \<open>args\<close>). They are parameters of the model: the
  theorems hold for every behaviour of theirs.
\<close>

record ('w, 'm, 'k, 'mt, 'tc) env =
  setup_after_launch :: "cfg \<Rightarrow> string \<Rightarrow> ('w, 'm, 'k, 'mt, 'tc) runner option
                           \<Rightarrow> 'w \<Rightarrow> (exn + unit) \<times> 'w"
  print_metrics_table :: "'mt \<Rightarrow> 'w \<Rightarrow> (exn + unit) \<times> 'w"
  create_ddp_model :: "'m \<Rightarrow> bool \<Rightarrow> int list option \<Rightarrow> bool \<Rightarrow> bool
                           \<Rightarrow> 'w \<Rightarrow> (exn + 'm) \<times> 'w"
  get_local_rank :: "'w \<Rightarrow> (exn + int) \<times> 'w"
  model_eval :: "'m \<Rightarrow> 'w \<Rightarrow> (exn + unit) \<times> 'w"
  has_checkpoint :: "'k \<Rightarrow> 'w \<Rightarrow> (exn + bool) \<times> 'w"
  resume_or_load :: "'k \<Rightarrow> string \<Rightarrow> bool \<Rightarrow> 'w \<Rightarrow> (exn + checkpoint) \<times> 'w"
  load :: "'k \<Rightarrow> string \<Rightarrow> 'w \<Rightarrow> (exn + checkpoint) \<times> 'w"
  prepare_for_launch :: "cli_args \<Rightarrow>
     ('w, ('m, 'k, 'mt, 'tc) event, cfg \<times> string \<times> ('w, 'm, 'k, 'mt, 'tc) runner option) prog"
  launch :: "(('w, 'm, 'k, 'mt, 'tc) entry_args \<Rightarrow> ('w, ('m, 'k, 'mt, 'tc) event, 'mt RunResult) prog)
     \<Rightarrow> int \<Rightarrow> int \<Rightarrow> int \<Rightarrow> string \<Rightarrow> string \<Rightarrow> ('w, 'm, 'k, 'mt, 'tc) entry_args
     \<Rightarrow> ('w, ('m, 'k, 'mt, 'tc) event, 'mt RunResult) prog"

text \<open>
  Modelled from the spec: \<open>dump_trained_model_configs\<close> of \<open>d2go.utils.misc\<close> is
  not among the sources. The spec has it dump each trained sub-model's config to the
  output directory and give the mapping from each logical name to its config artifact,
  one entry per trained sub-model.
\<close>

definition dump_trained_model_configs ::
  "string \<Rightarrow> (string \<times> 'tc) list \<Rightarrow> ('w, ('m, 'k, 'mt, 'tc) event, (string \<times> artifact) list) prog" where
  "dump_trained_model_configs output_dir trained_cfgs = (\<lambda>w.
     (Inr (map (\<lambda>(name, c). (name, Config_path output_dir name)) trained_cfgs),
      map (\<lambda>(name, c). Ev_dump_config output_dir name c) trained_cfgs,
      w))"

section \<open>The entry point \<open>main\<close>\<close>

text \<open>
  \<open>main(cfg, output_dir, runner=None, eval_only=False, resume=True)\<close>, statement by
  statement. The local \<open>metrics\<close> of the source is \<open>report\<close> here, the name being
  taken by the key of the result.
\<close>

definition main ::
  "('w, 'm, 'k, 'mt, 'tc) env \<Rightarrow> cfg \<Rightarrow> string \<Rightarrow> ('w, 'm, 'k, 'mt, 'tc) runner option
     \<Rightarrow> bool \<Rightarrow> bool \<Rightarrow> ('w, ('m, 'k, 'mt, 'tc) event, 'mt RunResult) prog" where
  "main env cfg output_dir runner eval_only resume =
     bind (call (Ev_setup_after_launch cfg output_dir)
                (setup_after_launch env cfg output_dir runner)) (\<lambda>_.
     case runner of
       None \<Rightarrow> raise AttributeError
     | Some rn \<Rightarrow>
     bind (call (Ev_build_model cfg) (build_model rn cfg)) (\<lambda>model.
     bind (emit (Ev_logger_info model)) (\<lambda>_.
     if eval_only then
       bind (call (Ev_build_checkpointer cfg model output_dir)
                  (build_checkpointer rn cfg model output_dir)) (\<lambda>checkpointer.
       bind (if resume
             then call (Ev_has_checkpoint checkpointer) (has_checkpoint env checkpointer)
             else return False) (\<lambda>resuming.
       bind (if resuming
             then call (Ev_resume_or_load checkpointer (MODEL_WEIGHTS cfg) resume)
                       (resume_or_load env checkpointer (MODEL_WEIGHTS cfg) resume)
             else call (Ev_load checkpointer (MODEL_WEIGHTS cfg))
                       (load env checkpointer (MODEL_WEIGHTS cfg))) (\<lambda>checkpoint.
       let train_iter = (case map_of checkpoint ''iteration'' of
                           None \<Rightarrow> PyNone | Some v \<Rightarrow> v) in
       bind (call (Ev_model_eval model) (model_eval env model)) (\<lambda>_.
       bind (call (Ev_do_test cfg model (Some train_iter))
                  (do_test rn cfg model (Some train_iter))) (\<lambda>report.
       bind (call (Ev_print_metrics_table report) (print_metrics_table env report)) (\<lambda>_.
       return \<lparr>accuracy = report, model_configs = [], metrics = report\<rparr>))))))
     else
       bind (if MODEL_DEVICE cfg = ''cpu'' then return None
             else bind (call Ev_get_local_rank (get_local_rank env))
                       (\<lambda>rank. return (Some [rank]))) (\<lambda>device_ids.
       bind (call (Ev_create_ddp_model model (MODEL_DDP_FP16_GRAD_COMPRESS cfg) device_ids
                     False (MODEL_DDP_FIND_UNUSED_PARAMETERS cfg))
                  (create_ddp_model env model (MODEL_DDP_FP16_GRAD_COMPRESS cfg) device_ids
                     False (MODEL_DDP_FIND_UNUSED_PARAMETERS cfg))) (\<lambda>model.
       bind (call (Ev_do_train cfg model resume) (do_train rn cfg model resume)) (\<lambda>trained_cfgs.
       bind (call (Ev_do_test cfg model None) (do_test rn cfg model None)) (\<lambda>report.
       bind (call (Ev_print_metrics_table report) (print_metrics_table env report)) (\<lambda>_.
       bind (dump_trained_model_configs (OUTPUT_DIR cfg) trained_cfgs) (\<lambda>trained_model_configs.
       return \<lparr>accuracy = report, model_configs = trained_model_configs,
               metrics = report\<rparr>)))))))))"

section \<open>The launch boundary\<close>

text \<open>
  Modelled from the spec: \<open>post_mortem_if_fail_for_main\<close> of \<open>d2go.setup\<close> is not
  among the sources. The spec has it install a failure interceptor around the entry
  point: on an unhandled error it drops into post-mortem inspection for that worker and
  then re-raises the error; it does nothing to a run that completes normally.
\<close>

definition post_mortem_if_fail_for_main ::
  "('x \<Rightarrow> ('w, ('m, 'k, 'mt, 'tc) event, 'a) prog) \<Rightarrow> 'x \<Rightarrow> ('w, ('m, 'k, 'mt, 'tc) event, 'a) prog" where
  "post_mortem_if_fail_for_main main_func = (\<lambda>args w.
     case main_func args w of
       (Inl e, tr, w1) \<Rightarrow> (Inl e, tr @ [Ev_post_mortem e], w1)
     | (Inr a, tr, w1) \<Rightarrow> (Inr a, tr, w1))"

text \<open>\<open>main\<close> as \<open>launch\<close> calls it, on the tuple of its positional arguments.\<close>

definition main_func ::
  "('w, 'm, 'k, 'mt, 'tc) env \<Rightarrow> ('w, 'm, 'k, 'mt, 'tc) entry_args
     \<Rightarrow> ('w, ('m, 'k, 'mt, 'tc) event, 'mt RunResult) prog" where
  "main_func env = (\<lambda>(cfg, output_dir, runner, eval_only, resume).
     main env cfg output_dir runner eval_only resume)"

text \<open>
  \<open>run_with_cmdline_args(args)\<close>. The call of \<open>launch\<close> is an expression statement:
  its value is dropped, and the function ends without a \<open>return\<close>, so that what it
  returns is Python's \<open>None\<close>. The result type has room for a \<open>RunResult\<close>
  (\<open>Some\<close>) so that the two can be told apart.
\<close>

definition run_with_cmdline_args ::
  "('w, 'm, 'k, 'mt, 'tc) env \<Rightarrow> cli_args
     \<Rightarrow> ('w, ('m, 'k, 'mt, 'tc) event, 'mt RunResult option) prog" where
  "run_with_cmdline_args env args =
     bind (prepare_for_launch env args) (\<lambda>(cfg, output_dir, runner).
     bind (launch env (post_mortem_if_fail_for_main (main_func env))
             (args_num_processes args) (args_num_machines args) (args_machine_rank args)
             (args_dist_url args) (args_dist_backend args)
             (cfg, output_dir, runner, args_eval_only args, args_resume args)) (\<lambda>_.
     return None))"

text \<open>
  Modelled from the spec: \<open>launch\<close> of \<open>d2go.distributed\<close> is not among the sources.
  The spec has it return the leader's \<open>RunResult\<close>, and in the degenerate case of one
  process on one machine the group has one member and the rendezvous is a no-op: the
  only worker is the leader, so \<open>launch\<close> runs the entry point on \<open>args\<close> and returns
  what it returns.
\<close>

definition launch_single ::
  "('x \<Rightarrow> ('w, 'ev, 'a) prog) \<Rightarrow> int \<Rightarrow> int \<Rightarrow> int \<Rightarrow> string \<Rightarrow> string \<Rightarrow> 'x \<Rightarrow> ('w, 'ev, 'a) prog" where
  "launch_single entry_point num_processes_per_machine num_machines machine_rank
       dist_url backend args = entry_point args"

section \<open>A concrete job\<close>

text \<open>
  A small runner and environment to run the definitions on. The world is the number of
  calls that have changed it; models and checkpointers are object numbers; a metrics
  report maps names to values; a trained config is its text.
\<close>

definition demo_cfg :: cfg where
  "demo_cfg = \<lparr>MODEL_WEIGHTS = ''weights.pth'', MODEL_DEVICE = ''cuda'',
     MODEL_DDP_FP16_GRAD_COMPRESS = False, MODEL_DDP_FIND_UNUSED_PARAMETERS = True,
     OUTPUT_DIR = ''out''\<rparr>"

definition demo_runner :: "(nat, nat, nat, (string \<times> int) list, string) runner" where
  "demo_runner = \<lparr>
     build_model = (\<lambda>c w. (Inr 1, Suc w)),
     build_checkpointer = (\<lambda>c m d w. (Inr 7, Suc w)),
     do_train = (\<lambda>c m rs w. (Inr [(''model_final'', ''trained'')], Suc w)),
     do_test = (\<lambda>c m ti w. (Inr [(''AP'', 40)], Suc w))\<rparr>"

definition failing_runner :: "(nat, nat, nat, (string \<times> int) list, string) runner" where
  "failing_runner = demo_runner\<lparr>
     do_train := (\<lambda>c m rs w. (Inl (Raised ''out of memory''), Suc w))\<rparr>"

definition demo_env ::
  "bool \<Rightarrow> (nat, nat, nat, (string \<times> int) list, string) runner
     \<Rightarrow> (nat, nat, nat, (string \<times> int) list, string) env" where
  "demo_env checkpoint_exists rn = \<lparr>
     setup_after_launch = (\<lambda>c d r w. (Inr (), Suc w)),
     print_metrics_table = (\<lambda>mt w. (Inr (), w)),
     create_ddp_model = (\<lambda>m fp dev bb fu w. (Inr (m + 100), Suc w)),
     get_local_rank = (\<lambda>w. (Inr 0, w)),
     model_eval = (\<lambda>m w. (Inr (), Suc w)),
     has_checkpoint = (\<lambda>k w. (Inr checkpoint_exists, w)),
     resume_or_load = (\<lambda>k wts rs w. (Inr [(''iteration'', PyInt 500)], Suc w)),
     load = (\<lambda>k wts w. (Inr [(''model'', PyStr wts)], Suc w)),
     prepare_for_launch = (\<lambda>a. return (demo_cfg, ''out'', Some rn)),
     launch = launch_single\<rparr>"

definition demo_args :: "bool \<Rightarrow> bool \<Rightarrow> cli_args" where
  "demo_args eval_only resume = \<lparr>args_num_processes = 1, args_num_machines = 1,
     args_machine_rank = 0, args_dist_url = ''file:///tmp/d2go'', args_dist_backend = ''NCCL'',
     args_eval_only = eval_only, args_resume = resume\<rparr>"

text \<open>
  Four runs of \<open>main\<close> on it, from the world \<open>0\<close>: evaluation only with
  \<open>resume\<close> and no checkpoint in the output directory, evaluation only with
  \<open>resume\<close> and a checkpoint there, training, and training with a \<open>do_train\<close>
  that raises.
\<close>

definition eval_fresh_run where
  "eval_fresh_run = main (demo_env False demo_runner) demo_cfg ''out'' (Some demo_runner) True True 0"

definition eval_resumed_run where
  "eval_resumed_run = main (demo_env True demo_runner) demo_cfg ''out'' (Some demo_runner) True True 0"

definition train_run where
  "train_run = main (demo_env False demo_runner) demo_cfg ''out'' (Some demo_runner) False True 0"

definition failing_train_run where
  "failing_train_run =
     main (demo_env False failing_runner) demo_cfg ''out'' (Some failing_runner) False True 0"

subsection \<open>Reading a trace\<close>

fun is_do_train :: "('m, 'k, 'mt, 'tc) event \<Rightarrow> bool" where
  "is_do_train (Ev_do_train _ _ _ _) = True"
| "is_do_train _ = False"

fun is_do_test :: "('m, 'k, 'mt, 'tc) event \<Rightarrow> bool" where
  "is_do_test (Ev_do_test _ _ _ _) = True"
| "is_do_test _ = False"


fun is_dump_config :: "('m, 'k, 'mt, 'tc) event \<Rightarrow> bool" where
  "is_dump_config (Ev_dump_config _ _ _) = True"
| "is_dump_config _ = False"

fun is_post_mortem :: "('m, 'k, 'mt, 'tc) event \<Rightarrow> bool" where
  "is_post_mortem (Ev_post_mortem _) = True"
| "is_post_mortem _ = False"

section \<open>Properties\<close>

lemma bindE:
  assumes "bind m f w = (r, tr, w')"
  obtains (raised) e where "m w = (Inl e, tr, w')" and "r = Inl e"
  | (returned) a tr1 w1 tr2 where "m w = (Inr a, tr1, w1)" and "f a w1 = (r, tr2, w')"
      and "tr = tr1 @ tr2"
  using assms by (auto simp: bind_def split: prod.splits sum.splits)

lemma callE:
  assumes "call ev f w = (r, tr, w')"
  obtains "f w = (r, w')" and "tr = [ev r]"
  using assms by (auto simp: call_def split: prod.splits)

lemma returnE:
  assumes "return a w = (r, tr, w')"
  obtains "r = Inr a" and "tr = []" and "w' = w"
  using assms by (auto simp: return_def)

lemma raiseE:
  assumes "raise e w = (r, tr, w')"
  obtains "r = Inl e" and "tr = []" and "w' = w"
  using assms by (auto simp: raise_def)

lemma emitE:
  assumes "emit ev w = (r, tr, w')"
  obtains "r = Inr ()" and "tr = [ev]" and "w' = w"
  using assms by (auto simp: emit_def)

lemma dump_trained_model_configsE:
  assumes "dump_trained_model_configs d tcs w = (r, tr, w')"
  obtains "r = Inr (map (\<lambda>(name, c). (name, Config_path d name)) tcs)"
    and "tr = map (\<lambda>(name, c). Ev_dump_config d name c) tcs" and "w' = w"
  using assms by (auto simp: dump_trained_model_configs_def)

lemmas progE = bindE callE returnE raiseE emitE dump_trained_model_configsE

lemma filter_do_train_dump [simp]:
  "filter is_do_train (map (\<lambda>(name, c). Ev_dump_config d name c) tcs) = []"
  by (induction tcs) auto

lemma filter_do_test_dump [simp]:
  "filter is_do_test (map (\<lambda>(name, c). Ev_dump_config d name c) tcs) = []"
  by (induction tcs) auto

lemma filter_train_test_dump [simp]:
  "filter (\<lambda>e. is_do_train e \<or> is_do_test e)
     (map (\<lambda>(name, c). Ev_dump_config d name c) tcs) = []"
  by (induction tcs) auto

lemma filter_post_mortem_dump [simp]:
  "filter is_post_mortem (map (\<lambda>(name, c). Ev_dump_config d name c) tcs) = []"
  by (induction tcs) auto

lemma filter_dump_dump [simp]:
  "filter is_dump_config (map (\<lambda>(name, c). Ev_dump_config d name c) tcs)
     = map (\<lambda>(name, c). Ev_dump_config d name c) tcs"
  by (induction tcs) auto


subsection \<open>The concrete job, run\<close>

lemmas demo_defs = main_def bind_def call_def return_def raise_def emit_def
  dump_trained_model_configs_def demo_env_def demo_runner_def failing_runner_def demo_cfg_def
  Let_def

lemma demo_eval_fresh:
  "eval_fresh_run =
     (Inr \<lparr>accuracy = [(''AP'', 40)], model_configs = [], metrics = [(''AP'', 40)]\<rparr>,
      [Ev_setup_after_launch demo_cfg ''out'' (Inr ()),
       Ev_build_model demo_cfg (Inr 1),
       Ev_logger_info 1,
       Ev_build_checkpointer demo_cfg 1 ''out'' (Inr 7),
       Ev_has_checkpoint 7 (Inr False),
       Ev_load 7 ''weights.pth'' (Inr [(''model'', PyStr ''weights.pth'')]),
       Ev_model_eval 1 (Inr ()),
       Ev_do_test demo_cfg 1 (Some PyNone) (Inr [(''AP'', 40)]),
       Ev_print_metrics_table [(''AP'', 40)] (Inr ())],
      6)"
  by (simp add: eval_fresh_run_def demo_defs)

lemma demo_eval_resumed:
  "eval_resumed_run =
     (Inr \<lparr>accuracy = [(''AP'', 40)], model_configs = [], metrics = [(''AP'', 40)]\<rparr>,
      [Ev_setup_after_launch demo_cfg ''out'' (Inr ()),
       Ev_build_model demo_cfg (Inr 1),
       Ev_logger_info 1,
       Ev_build_checkpointer demo_cfg 1 ''out'' (Inr 7),
       Ev_has_checkpoint 7 (Inr True),
       Ev_resume_or_load 7 ''weights.pth'' True (Inr [(''iteration'', PyInt 500)]),
       Ev_model_eval 1 (Inr ()),
       Ev_do_test demo_cfg 1 (Some (PyInt 500)) (Inr [(''AP'', 40)]),
       Ev_print_metrics_table [(''AP'', 40)] (Inr ())],
      6)"
  by (simp add: eval_resumed_run_def demo_defs)

lemma demo_train:
  "train_run =
     (Inr \<lparr>accuracy = [(''AP'', 40)],
           model_configs = [(''model_final'', Config_path ''out'' ''model_final'')],
           metrics = [(''AP'', 40)]\<rparr>,
      [Ev_setup_after_launch demo_cfg ''out'' (Inr ()),
       Ev_build_model demo_cfg (Inr 1),
       Ev_logger_info 1,
       Ev_get_local_rank (Inr 0),
       Ev_create_ddp_model 1 False (Some [0]) False True (Inr 101),
       Ev_do_train demo_cfg 101 True (Inr [(''model_final'', ''trained'')]),
       Ev_do_test demo_cfg 101 None (Inr [(''AP'', 40)]),
       Ev_print_metrics_table [(''AP'', 40)] (Inr ()),
       Ev_dump_config ''out'' ''model_final'' ''trained''],
      5)"
  by (simp add: train_run_def demo_defs)

lemma demo_train_fails:
  "failing_train_run =
     (Inl (Raised ''out of memory''),
      [Ev_setup_after_launch demo_cfg ''out'' (Inr ()),
       Ev_build_model demo_cfg (Inr 1),
       Ev_logger_info 1,
       Ev_get_local_rank (Inr 0),
       Ev_create_ddp_model 1 False (Some [0]) False True (Inr 101),
       Ev_do_train demo_cfg 101 True (Inl (Raised ''out of memory''))],
      4)"
  by (simp add: failing_train_run_def demo_defs)

text \<open>A run is the triple of its outcome, its trace and its final world.\<close>

lemma run_triple: "fst x = r \<Longrightarrow> x = (r, fst (snd x), snd (snd x))"
  by (simp add: prod_eq_iff)

lemma demo_prepare:
  "prepare_for_launch (demo_env b rn) a (0::nat) = (Inr (demo_cfg, ''out'', Some rn), [], 0)"
  by (simp add: demo_env_def return_def)

lemma demo_args_fields:
  "args_num_processes (demo_args eo rs) = 1"
  "args_num_machines (demo_args eo rs) = 1"
  "args_machine_rank (demo_args eo rs) = 0"
  "args_dist_url (demo_args eo rs) = ''file:///tmp/d2go''"
  "args_dist_backend (demo_args eo rs) = ''NCCL''"
  "args_eval_only (demo_args eo rs) = eo"
  "args_resume (demo_args eo rs) = rs"
  by (simp_all add: demo_args_def)

lemma demo_launch_train:
  "launch (demo_env False demo_runner)
     (post_mortem_if_fail_for_main (main_func (demo_env False demo_runner)))
     1 1 0 ''file:///tmp/d2go'' ''NCCL'' (demo_cfg, ''out'', Some demo_runner, False, True) 0
   = train_run"
proof -
  have sel: "launch (demo_env False demo_runner) = launch_single"
    by (simp add: demo_env_def)
  show ?thesis
    unfolding sel
    by (simp add: launch_single_def post_mortem_if_fail_for_main_def main_func_def
        train_run_def [symmetric] demo_train)
qed

section \<open>The claims\<close>

text \<open>
  C1. When \<open>main\<close> is called with \<open>eval_only = True\<close>, whatever the configuration,
  the runner and the collaborators do, no call of \<open>do_train\<close> is made (also on a run
  that ends in an exception), and a run that returns has called \<open>do_test\<close> exactly once.
\<close>

theorem eval_only_never_trains_tests_once:
  assumes "main env cfg output_dir runner True resume w = (r, tr, w')"
  shows "filter is_do_train tr = []
       \<and> (\<forall>res. r = Inr res \<longrightarrow> length (filter is_do_test tr) = 1)"
  using assms unfolding main_def
  by (auto elim!: progE split: option.splits if_splits simp: Let_def)

theorem eval_only_never_trains_tests_once_witness:
  "fst eval_fresh_run =
     Inr \<lparr>accuracy = [(''AP'', 40)], model_configs = [], metrics = [(''AP'', 40)]\<rparr>
   \<and> filter is_do_train (fst (snd eval_fresh_run)) = []
   \<and> length (filter is_do_test (fst (snd eval_fresh_run))) = 1"
proof -
  have ret: "fst eval_fresh_run =
      Inr \<lparr>accuracy = [(''AP'', 40)], model_configs = [], metrics = [(''AP'', 40)]\<rparr>"
    by (simp add: demo_eval_fresh)
  note run = run_triple [OF ret, unfolded eval_fresh_run_def]
  from eval_only_never_trains_tests_once [OF run] ret show ?thesis
    by (simp add: eval_fresh_run_def)
qed





text \<open>
  C4, as the code has it. \<open>run_with_cmdline_args\<close> hands to \<open>launch\<close> the entry
  point \<open>main\<close> wrapped by \<open>post_mortem_if_fail_for_main\<close>, the topology of the command
  line and the arguments \<open>(cfg, output_dir, runner, args.eval_only, args.resume)\<close>; when
  \<open>launch\<close> returns the leader's \<open>RunResult\<close>, that value is dropped and
  \<open>run_with_cmdline_args\<close> returns \<open>None\<close>.
\<close>

theorem run_with_cmdline_args_returns_None:
  assumes "prepare_for_launch env args w = (Inr (cfg, output_dir, runner), tr1, w1)"
    and "launch env (post_mortem_if_fail_for_main (main_func env))
           (args_num_processes args) (args_num_machines args) (args_machine_rank args)
           (args_dist_url args) (args_dist_backend args)
           (cfg, output_dir, runner, args_eval_only args, args_resume args) w1
         = (Inr res, tr2, w2)"
  shows "run_with_cmdline_args env args w = (Inr None, tr1 @ tr2, w2)"
  using assms by (simp add: run_with_cmdline_args_def bind_def return_def)

theorem run_with_cmdline_args_returns_None_witness:
  "run_with_cmdline_args (demo_env False demo_runner) (demo_args False True) 0
     = (Inr None, fst (snd train_run), 5)"
proof -
  have l: "launch (demo_env False demo_runner)
     (post_mortem_if_fail_for_main (main_func (demo_env False demo_runner)))
     (args_num_processes (demo_args False True)) (args_num_machines (demo_args False True))
     (args_machine_rank (demo_args False True)) (args_dist_url (demo_args False True))
     (args_dist_backend (demo_args False True))
     (demo_cfg, ''out'', Some demo_runner, args_eval_only (demo_args False True),
      args_resume (demo_args False True)) 0
   = (Inr \<lparr>accuracy = [(''AP'', 40)],
            model_configs = [(''model_final'', Config_path ''out'' ''model_final'')],
            metrics = [(''AP'', 40)]\<rparr>, fst (snd train_run), 5)"
    by (simp add: demo_args_fields demo_launch_train demo_train)
  from run_with_cmdline_args_returns_None [OF demo_prepare l] show ?thesis
    by simp
qed

text \<open>
  C4 as the spec words it fails on the concrete job: \<open>launch\<close> returns the
  leader's result of the training run, and \<open>run_with_cmdline_args\<close> does not return it.
\<close>

theorem run_with_cmdline_args_drops_result:
  "fst (launch (demo_env False demo_runner)
          (post_mortem_if_fail_for_main (main_func (demo_env False demo_runner)))
          1 1 0 ''file:///tmp/d2go'' ''NCCL'' (demo_cfg, ''out'', Some demo_runner, False, True) 0)
     = Inr \<lparr>accuracy = [(''AP'', 40)],
            model_configs = [(''model_final'', Config_path ''out'' ''model_final'')],
            metrics = [(''AP'', 40)]\<rparr>
   \<and> fst (run_with_cmdline_args (demo_env False demo_runner) (demo_args False True) 0)
     \<noteq> Inr (Some \<lparr>accuracy = [(''AP'', 40)],
            model_configs = [(''model_final'', Config_path ''out'' ''model_final'')],
            metrics = [(''AP'', 40)]\<rparr>)"
proof -
  have "fst (run_with_cmdline_args (demo_env False demo_runner) (demo_args False True) 0)
        = Inr None"
    by (simp add: run_with_cmdline_args_def bind_def return_def demo_prepare demo_args_fields
        demo_launch_train demo_train)
  then show ?thesis
    by (simp add: demo_launch_train demo_train)
qed







text \<open>
  C8. For the entry point \<open>post_mortem_if_fail_for_main(main)\<close> that \<open>launch\<close> is given:
  when \<open>main\<close> ends in an exception, the wrapped entry point does what \<open>main\<close> did, then
  the post-mortem inspection of that exception, and raises the same exception; when
  \<open>main\<close> returns, the wrapped entry point is the same run with the same result. \<open>main\<close>
  itself never starts an inspection.
\<close>

theorem post_mortem_reraises:
  assumes "main env cfg output_dir runner eval_only resume w = (r, tr, w')"
  shows "(\<forall>e. r = Inl e \<longrightarrow>
            post_mortem_if_fail_for_main (main_func env)
              (cfg, output_dir, runner, eval_only, resume) w
            = (Inl e, tr @ [Ev_post_mortem e], w'))
       \<and> (\<forall>res. r = Inr res \<longrightarrow>
            post_mortem_if_fail_for_main (main_func env)
              (cfg, output_dir, runner, eval_only, resume) w
            = (Inr res, tr, w'))
       \<and> filter is_post_mortem tr = []"
proof (intro conjI)
  show "\<forall>e. r = Inl e \<longrightarrow>
            post_mortem_if_fail_for_main (main_func env)
              (cfg, output_dir, runner, eval_only, resume) w
            = (Inl e, tr @ [Ev_post_mortem e], w')"
    using assms by (simp add: post_mortem_if_fail_for_main_def main_func_def)
next
  show "\<forall>res. r = Inr res \<longrightarrow>
            post_mortem_if_fail_for_main (main_func env)
              (cfg, output_dir, runner, eval_only, resume) w
            = (Inr res, tr, w')"
    using assms by (simp add: post_mortem_if_fail_for_main_def main_func_def)
next
  show "filter is_post_mortem tr = []"
    using assms unfolding main_def
    by (auto elim!: progE split: option.splits if_splits simp: Let_def)
qed

theorem post_mortem_reraises_witness:
  "fst failing_train_run = Inl (Raised ''out of memory'')
   \<and> post_mortem_if_fail_for_main (main_func (demo_env False failing_runner))
       (demo_cfg, ''out'', Some failing_runner, False, True) 0
     = (Inl (Raised ''out of memory''),
        fst (snd failing_train_run) @ [Ev_post_mortem (Raised ''out of memory'')], 4)
   \<and> fst train_run =
       Inr \<lparr>accuracy = [(''AP'', 40)],
            model_configs = [(''model_final'', Config_path ''out'' ''model_final'')],
            metrics = [(''AP'', 40)]\<rparr>
   \<and> post_mortem_if_fail_for_main (main_func (demo_env False demo_runner))
       (demo_cfg, ''out'', Some demo_runner, False, True) 0
     = train_run"
proof -
  have ret1: "fst failing_train_run = Inl (Raised ''out of memory'')"
    by (simp add: demo_train_fails)
  have ret2: "fst train_run =
       Inr \<lparr>accuracy = [(''AP'', 40)],
            model_configs = [(''model_final'', Config_path ''out'' ''model_final'')],
            metrics = [(''AP'', 40)]\<rparr>"
    by (simp add: demo_train)
  note inst1 = post_mortem_reraises
    [OF run_triple [OF ret1, unfolded failing_train_run_def], folded failing_train_run_def]
  note inst2 = post_mortem_reraises
    [OF run_triple [OF ret2, unfolded train_run_def], folded train_run_def]
  have w1: "snd (snd failing_train_run) = 4"
    by (simp add: demo_train_fails)
  from inst1 w1 have a: "post_mortem_if_fail_for_main (main_func (demo_env False failing_runner))
       (demo_cfg, ''out'', Some failing_runner, False, True) 0
     = (Inl (Raised ''out of memory''),
        fst (snd failing_train_run) @ [Ev_post_mortem (Raised ''out of memory'')], 4)"
    by simp
  from inst2 ret2 have b: "post_mortem_if_fail_for_main (main_func (demo_env False demo_runner))
       (demo_cfg, ''out'', Some demo_runner, False, True) 0
     = train_run"
    by (simp add: prod_eq_iff)
  from ret1 a ret2 b show ?thesis
    by simp
qed

text \<open>
  C9. When \<open>main\<close> is called with \<open>eval_only = True\<close> and returns, the \<open>model_configs\<close>
  entry of the result is the empty dict, whatever the checkpointer reports, whatever
  \<open>resume\<close> is and whatever \<open>do_test\<close> returns.
\<close>

theorem eval_only_model_configs_empty:
  assumes "main env cfg output_dir runner True resume w = (Inr res, tr, w')"
  shows "model_configs res = []"
  using assms unfolding main_def
  by (auto elim!: progE split: option.splits if_splits simp: Let_def)

theorem eval_only_model_configs_empty_witness:
  "fst eval_resumed_run =
     Inr \<lparr>accuracy = [(''AP'', 40)], model_configs = [], metrics = [(''AP'', 40)]\<rparr>
   \<and> model_configs
       \<lparr>accuracy = [(''AP'', 40::int)], model_configs = [], metrics = [(''AP'', 40)]\<rparr> = []"
proof -
  have ret: "fst eval_resumed_run =
     Inr \<lparr>accuracy = [(''AP'', 40)], model_configs = [], metrics = [(''AP'', 40)]\<rparr>"
    by (simp add: demo_eval_resumed)
  from eval_only_model_configs_empty
    [OF run_triple [OF ret, unfolded eval_resumed_run_def]] ret
  show ?thesis
    by blast
qed

text \<open>
  C10. In every result \<open>main\<close> returns, in evaluation-only mode or not, the \<open>accuracy\<close>
  entry and the \<open>metrics\<close> entry are the same value: the one returned by the only call of
  \<open>do_test\<close> of the run.
\<close>

theorem accuracy_is_metrics:
  assumes "main env cfg output_dir runner eval_only resume w = (Inr res, tr, w')"
  shows "accuracy res = metrics res
       \<and> (\<exists>c m ti. filter is_do_test tr = [Ev_do_test c m ti (Inr (metrics res))])"
  using assms unfolding main_def
  by (auto elim!: progE split: option.splits if_splits simp: Let_def)

theorem accuracy_is_metrics_witness:
  "fst eval_fresh_run =
     Inr \<lparr>accuracy = [(''AP'', 40)], model_configs = [], metrics = [(''AP'', 40)]\<rparr>
   \<and> (\<exists>c m ti. filter is_do_test (fst (snd eval_fresh_run))
        = [Ev_do_test c m ti (Inr [(''AP'', 40)])])
   \<and> fst train_run =
     Inr \<lparr>accuracy = [(''AP'', 40)],
          model_configs = [(''model_final'', Config_path ''out'' ''model_final'')],
          metrics = [(''AP'', 40)]\<rparr>
   \<and> (\<exists>c m ti. filter is_do_test (fst (snd train_run))
        = [Ev_do_test c m ti (Inr [(''AP'', 40)])])"
proof -
  have ret1: "fst eval_fresh_run =
     Inr \<lparr>accuracy = [(''AP'', 40)], model_configs = [], metrics = [(''AP'', 40)]\<rparr>"
    by (simp add: demo_eval_fresh)
  have ret2: "fst train_run =
     Inr \<lparr>accuracy = [(''AP'', 40)],
          model_configs = [(''model_final'', Config_path ''out'' ''model_final'')],
          metrics = [(''AP'', 40)]\<rparr>"
    by (simp add: demo_train)
  note inst1 = accuracy_is_metrics
    [OF run_triple [OF ret1, unfolded eval_fresh_run_def], folded eval_fresh_run_def]
  note inst2 = accuracy_is_metrics
    [OF run_triple [OF ret2, unfolded train_run_def], folded train_run_def]
  from inst1 have a: "\<exists>c m ti. filter is_do_test (fst (snd eval_fresh_run))
        = [Ev_do_test c m ti (Inr [(''AP'', 40)])]"
    by simp
  from inst2 have b: "\<exists>c m ti. filter is_do_test (fst (snd train_run))
        = [Ev_do_test c m ti (Inr [(''AP'', 40)])]"
    by simp
  from ret1 a ret2 b show ?thesis
    by simp
qed

end
